theory Spec2Isabelle
  imports Main
begin

section \<open>The editor component of \<^verbatim>\<open>src/app/app.ts\<close>\<close>

text \<open>
  The class \<^verbatim>\<open>AppComponent\<close> holds the text of the editor, two history stacks, the
  tracked selection and a status line. Every method mutates the fields of \<^verbatim>\<open>this\<close>; here
  each method is a function from the component before the call to the component after it.

  JavaScript strings are sequences of UTF-16 code units; the buffer is modelled as a
  \<^typ>\<open>string\<close>, one \<^typ>\<open>char\<close> per code unit. The arrays \<^verbatim>\<open>undoStack\<close> and
  \<^verbatim>\<open>redoStack\<close> are lists in array order: \<^verbatim>\<open>push\<close> appends at the end,
  \<^verbatim>\<open>pop\<close> removes the last element, and the top of a stack is \<^term>\<open>last\<close>.
  Selection offsets are the unsigned offsets of the DOM, hence \<^typ>\<open>nat\<close>.

  The callback that \<^verbatim>\<open>applyFormatting\<close> hands to \<^verbatim>\<open>setTimeout\<close> (lines 115-127) writes
  the tracked selection later, so the timers that are scheduled and have not fired yet are
  part of the state: \<open>pendingTimeouts\<close> lists, in scheduling order, the value of
  \<^verbatim>\<open>formattedText.length\<close> captured by each such callback. All of them have the same delay,
  so they fire in that order. The other timers of the file only move the focus and are
  left out, as are the calls of \<^verbatim>\<open>console.log\<close>.
\<close>

record AppComponent =
  editorContent :: string
  undoStack :: "string list"
  redoStack :: "string list"
  selectionStart :: nat
  selectionEnd :: nat
  debugInfo :: string
  pendingTimeouts :: "nat list"

text \<open>
  The text area behind \<^verbatim>\<open>editorElement.nativeElement\<close> (and behind \<^verbatim>\<open>event.target\<close>)
  belongs to the browser. The methods only read its two selection offsets, so a text area
  is the pair of offsets it reports at the time of the call.
\<close>

record HTMLTextAreaElement =
  textareaSelectionStart :: nat
  textareaSelectionEnd :: nat

text \<open>A text area that reports the selection from offset \<open>s\<close> to offset \<open>e\<close>.\<close>

definition selected :: "nat \<Rightarrow> nat \<Rightarrow> HTMLTextAreaElement" where
  "selected s e = \<lparr>textareaSelectionStart = s, textareaSelectionEnd = e\<rparr>"

subsection \<open>Strings\<close>

definition newline :: char where
  "newline = CHR 0x0A"

text \<open>\<^verbatim>\<open>String.prototype.substring(start, end)\<close>: both indices are clamped to the length,
  and swapped when the first is the larger one.\<close>

definition substring :: "string \<Rightarrow> nat \<Rightarrow> nat \<Rightarrow> string" where
  "substring str indexStart indexEnd =
     (let a = min indexStart (length str);
          b = min indexEnd (length str);
          lo = min a b;
          hi = max a b
      in take (hi - lo) (drop lo str))"

text \<open>\<^verbatim>\<open>substring(start)\<close> with the end left out runs to the end of the string.\<close>

definition substringFrom :: "string \<Rightarrow> nat \<Rightarrow> string" where
  "substringFrom str indexStart = substring str indexStart (length str)"

text \<open>\<^verbatim>\<open>str[i]\<close> is \<^verbatim>\<open>undefined\<close> out of range, which is not equal to any character.\<close>

definition charAt :: "string \<Rightarrow> nat \<Rightarrow> char option" where
  "charAt str i = (if i < length str then Some (str ! i) else None)"

text \<open>The decimal digits that a template literal prints for an array length.\<close>

fun toString :: "nat \<Rightarrow> string" where
  "toString n =
     (if n < 10 then [''0123456789'' ! n]
      else toString (n div 10) @ [''0123456789'' ! (n mod 10)])"

declare toString.simps [simp del]

text \<open>The status line, written with the same template in five methods.\<close>

definition statusLine :: "string \<Rightarrow> AppComponent \<Rightarrow> string" where
  "statusLine action this =
     ''Action: '' @ action @ '' | Undo stack: '' @ toString (length (undoStack this))
       @ '' | Redo stack: '' @ toString (length (redoStack this))"

subsection \<open>Construction and initialisation\<close>

definition initialContent :: string where
  "initialContent = ''Welcome to the text editor with undo/redo functionality!''
     @ [newline, newline]
     @ ''Try selecting some text and clicking the formatting buttons above.''"

text \<open>The field initialisers of the class (lines 14-28).\<close>

definition constructed :: AppComponent where
  "constructed =
     \<lparr> editorContent = initialContent,
       undoStack = [],
       redoStack = [],
       selectionStart = 0,
       selectionEnd = 0,
       debugInfo = ''No actions yet'',
       pendingTimeouts = [] \<rparr>"

definition saveState :: "string \<Rightarrow> AppComponent \<Rightarrow> AppComponent" where
  "saveState action this =
     (let this1 = this\<lparr>undoStack := undoStack this @ [editorContent this]\<rparr>;
          this2 = this1\<lparr>redoStack := []\<rparr>
      in this2\<lparr>debugInfo := statusLine action this2\<rparr>)"

definition ngAfterViewInit :: "AppComponent \<Rightarrow> AppComponent" where
  "ngAfterViewInit this = saveState ''Initial state'' this"

definition initialized :: AppComponent where
  "initialized = ngAfterViewInit constructed"

subsection \<open>Editing and selection\<close>

definition onTextChange :: "string \<Rightarrow> AppComponent \<Rightarrow> AppComponent" where
  "onTextChange newText this =
     (if editorContent this \<noteq> newText
      then saveState ''Text changed'' (this\<lparr>editorContent := newText\<rparr>)
      else this)"

definition onSelectionChange :: "HTMLTextAreaElement \<Rightarrow> AppComponent \<Rightarrow> AppComponent" where
  "onSelectionChange textarea this =
     this\<lparr>selectionStart := textareaSelectionStart textarea,
          selectionEnd := textareaSelectionEnd textarea\<rparr>"

subsection \<open>Formatting\<close>

text \<open>
  \<^verbatim>\<open>applyFormatting\<close> returns at once when \<^verbatim>\<open>this.editorElement\<close> is not set; the
  argument \<open>editorElement\<close> is \<^term>\<open>None\<close> then. \<^verbatim>\<open>selectedText || defaultText\<close> takes the
  default exactly when the selected text is the empty string.
\<close>

definition formattedText :: "string \<Rightarrow> string \<Rightarrow> string \<Rightarrow> AppComponent \<Rightarrow> string" where
  "formattedText prefix suffix defaultText this =
     (let selectedText = substring (editorContent this) (selectionStart this) (selectionEnd this);
          textToInsert = (if selectedText = [] then defaultText else selectedText)
      in prefix @ textToInsert @ suffix)"

definition applyFormatting ::
  "HTMLTextAreaElement option \<Rightarrow> string \<Rightarrow> string \<Rightarrow> string \<Rightarrow> AppComponent \<Rightarrow> AppComponent" where
  "applyFormatting editorElement prefix suffix defaultText this =
     (case editorElement of
        None \<Rightarrow> this
      | Some textarea \<Rightarrow>
          (let this1 = this\<lparr>selectionStart := textareaSelectionStart textarea,
                            selectionEnd := textareaSelectionEnd textarea\<rparr>;
               formatted = formattedText prefix suffix defaultText this1;
               beforeText = substring (editorContent this1) 0 (selectionStart this1);
               afterText = substringFrom (editorContent this1) (selectionEnd this1);
               this2 = this1\<lparr>editorContent := beforeText @ formatted @ afterText\<rparr>;
               this3 = saveState ''Applied formatting'' this2
           in this3\<lparr>pendingTimeouts := pendingTimeouts this3 @ [length formatted]\<rparr>))"

text \<open>The body of the scheduled callback (lines 118-126). It reads \<^verbatim>\<open>this.selectionStart\<close>
  when it runs; only the length of the formatted text was captured.\<close>

definition reposition :: "nat \<Rightarrow> AppComponent \<Rightarrow> AppComponent" where
  "reposition formattedLength this =
     (let newPosition = selectionStart this + formattedLength
      in this\<lparr>selectionStart := newPosition, selectionEnd := newPosition\<rparr>)"

text \<open>The oldest pending timer fires.\<close>

definition timeout :: "AppComponent \<Rightarrow> AppComponent" where
  "timeout this =
     (case pendingTimeouts this of
        [] \<Rightarrow> this
      | n # rest \<Rightarrow> reposition n (this\<lparr>pendingTimeouts := rest\<rparr>))"

definition formatBold :: "HTMLTextAreaElement option \<Rightarrow> AppComponent \<Rightarrow> AppComponent" where
  "formatBold editorElement this = applyFormatting editorElement ''**'' ''**'' ''Bold text'' this"

definition formatItalic :: "HTMLTextAreaElement option \<Rightarrow> AppComponent \<Rightarrow> AppComponent" where
  "formatItalic editorElement this = applyFormatting editorElement ''_'' ''_'' ''Italic text'' this"

text \<open>The local variable \<^verbatim>\<open>prefix\<close> of \<^verbatim>\<open>formatHeading\<close>, computed from the tracked
  selection (not from the text area).\<close>

definition headingPrefix :: "AppComponent \<Rightarrow> string" where
  "headingPrefix this =
     (if selectionStart this > 0
         \<and> charAt (editorContent this) (selectionStart this - 1) = Some newline
      then ''# ''
      else newline # ''# '')"

definition formatHeading :: "HTMLTextAreaElement option \<Rightarrow> AppComponent \<Rightarrow> AppComponent" where
  "formatHeading editorElement this =
     applyFormatting editorElement (headingPrefix this) [] ''Heading'' this"

subsection \<open>History\<close>

text \<open>
  \<^verbatim>\<open>undo\<close> returns early on a stack of at most one entry, so after its \<^verbatim>\<open>pop\<close> the stack
  still has an entry and the read of its last element is in range; \<^verbatim>\<open>redo\<close> returns early
  on an empty redo stack, so its \<^verbatim>\<open>pop\<close> yields a string.
\<close>

definition undo :: "AppComponent \<Rightarrow> AppComponent" where
  "undo this =
     (if length (undoStack this) \<le> 1 then this
      else
        (let this1 = this\<lparr>redoStack := redoStack this @ [editorContent this]\<rparr>;
             this2 = this1\<lparr>undoStack := butlast (undoStack this1)\<rparr>;
             this3 = this2\<lparr>editorContent := last (undoStack this2)\<rparr>
         in this3\<lparr>debugInfo := statusLine ''Undo'' this3\<rparr>))"

definition redo :: "AppComponent \<Rightarrow> AppComponent" where
  "redo this =
     (if length (redoStack this) = 0 then this
      else
        (let redoState = last (redoStack this);
             this1 = this\<lparr>redoStack := butlast (redoStack this)\<rparr>;
             this2 = this1\<lparr>undoStack := undoStack this1 @ [redoState]\<rparr>;
             this3 = this2\<lparr>editorContent := redoState\<rparr>
         in this3\<lparr>debugInfo := statusLine ''Redo'' this3\<rparr>))"

definition clearHistory :: "AppComponent \<Rightarrow> AppComponent" where
  "clearHistory this =
     (let currentState = editorContent this;
          this1 = this\<lparr>undoStack := [currentState]\<rparr>;
          this2 = this1\<lparr>redoStack := []\<rparr>
      in this2\<lparr>debugInfo := statusLine ''Clear history'' this2\<rparr>)"

definition canUndo :: "AppComponent \<Rightarrow> bool" where
  "canUndo this = (length (undoStack this) > 1)"

definition canRedo :: "AppComponent \<Rightarrow> bool" where
  "canRedo this = (length (redoStack this) > 0)"

section \<open>The component as a transition system\<close>

text \<open>
  What can happen to a component after its view is initialised: the user types, moves the
  selection or presses one of the buttons, or the oldest pending timer fires.
\<close>

datatype event =
    TextChange string
  | SelectionChange HTMLTextAreaElement
  | Bold "HTMLTextAreaElement option"
  | Italic "HTMLTextAreaElement option"
  | Heading "HTMLTextAreaElement option"
  | Undo
  | Redo
  | ClearHistory
  | Timeout

fun handle :: "event \<Rightarrow> AppComponent \<Rightarrow> AppComponent" where
  "handle (TextChange newText) this = onTextChange newText this"
| "handle (SelectionChange textarea) this = onSelectionChange textarea this"
| "handle (Bold editorElement) this = formatBold editorElement this"
| "handle (Italic editorElement) this = formatItalic editorElement this"
| "handle (Heading editorElement) this = formatHeading editorElement this"
| "handle Undo this = undo this"
| "handle Redo this = redo this"
| "handle ClearHistory this = clearHistory this"
| "handle Timeout this = timeout this"

text \<open>A text area of the DOM never reports a selection start beyond its selection end.\<close>

definition selectionOrdered :: "HTMLTextAreaElement \<Rightarrow> bool" where
  "selectionOrdered textarea = (textareaSelectionStart textarea \<le> textareaSelectionEnd textarea)"

fun elementOrdered :: "HTMLTextAreaElement option \<Rightarrow> bool" where
  "elementOrdered None = True"
| "elementOrdered (Some textarea) = selectionOrdered textarea"

fun eventOk :: "event \<Rightarrow> bool" where
  "eventOk (SelectionChange textarea) = selectionOrdered textarea"
| "eventOk (Bold editorElement) = elementOrdered editorElement"
| "eventOk (Italic editorElement) = elementOrdered editorElement"
| "eventOk (Heading editorElement) = elementOrdered editorElement"
| "eventOk _ = True"

inductive reachable :: "AppComponent \<Rightarrow> bool" where
  start: "reachable initialized"
| step: "reachable this \<Longrightarrow> eventOk e \<Longrightarrow> reachable (handle e this)"

text \<open>The top of the undo stack is the text that the editor shows.\<close>

definition topIsCurrent :: "AppComponent \<Rightarrow> bool" where
  "topIsCurrent this = (undoStack this \<noteq> [] \<and> last (undoStack this) = editorContent this)"

text \<open>The tracked selection lies inside the buffer.\<close>

definition selectionInBounds :: "AppComponent \<Rightarrow> bool" where
  "selectionInBounds this =
     (selectionStart this \<le> selectionEnd this \<and> selectionEnd this \<le> length (editorContent this))"

section \<open>The formatting contract in the words of the specification\<close>

text \<open>
  These three definitions follow section 4.2 of the specification, not the code:
  \<open>buffer[i:j]\<close> is the slice from offset \<open>i\<close> up to offset \<open>j\<close>, the text to wrap is the
  selected slice, or the default text when the selection is empty (start = end), and the
  new buffer is \<open>buffer[0:start] + formatted + buffer[end:]\<close>.
\<close>

definition slice :: "string \<Rightarrow> nat \<Rightarrow> nat \<Rightarrow> string" where
  "slice buffer i j = take (j - i) (drop i buffer)"

definition specFormatted :: "string \<Rightarrow> string \<Rightarrow> string \<Rightarrow> string \<Rightarrow> nat \<Rightarrow> nat \<Rightarrow> string" where
  "specFormatted prefix suffix defaultText buffer s e =
     prefix @ (if s < e then slice buffer s e else defaultText) @ suffix"

definition specNewBuffer :: "string \<Rightarrow> string \<Rightarrow> string \<Rightarrow> string \<Rightarrow> nat \<Rightarrow> nat \<Rightarrow> string" where
  "specNewBuffer prefix suffix defaultText buffer s e =
     slice buffer 0 s @ specFormatted prefix suffix defaultText buffer s e
       @ slice buffer e (length buffer)"

section \<open>Field lemmas\<close>

text \<open>The equations that run the methods on a concrete component.\<close>

lemmas run_defs =
  initialized_def ngAfterViewInit_def constructed_def saveState_def onTextChange_def
  onSelectionChange_def applyFormatting_def formattedText_def substring_def substringFrom_def
  reposition_def timeout_def formatBold_def formatItalic_def formatHeading_def headingPrefix_def
  charAt_def undo_def redo_def clearHistory_def statusLine_def selected_def initialContent_def
  newline_def Let_def

lemma saveState_fields:
  "editorContent (saveState action this) = editorContent this"
  "undoStack (saveState action this) = undoStack this @ [editorContent this]"
  "redoStack (saveState action this) = []"
  "selectionStart (saveState action this) = selectionStart this"
  "selectionEnd (saveState action this) = selectionEnd this"
  "pendingTimeouts (saveState action this) = pendingTimeouts this"
  by (simp_all add: saveState_def Let_def)

lemma applyFormatting_Some_fields:
  "undoStack (applyFormatting (Some textarea) prefix suffix defaultText this)
     = undoStack this @ [editorContent (applyFormatting (Some textarea) prefix suffix defaultText this)]"
  "redoStack (applyFormatting (Some textarea) prefix suffix defaultText this) = []"
  "selectionStart (applyFormatting (Some textarea) prefix suffix defaultText this)
     = textareaSelectionStart textarea"
  "selectionEnd (applyFormatting (Some textarea) prefix suffix defaultText this)
     = textareaSelectionEnd textarea"
  by (simp_all add: applyFormatting_def saveState_fields Let_def)

section \<open>The top of the undo stack is the current text\<close>

lemma topIsCurrent_saveState: "topIsCurrent (saveState action this)"
  by (simp add: topIsCurrent_def saveState_fields)

lemma topIsCurrent_initialized: "topIsCurrent initialized"
  by (simp add: initialized_def ngAfterViewInit_def topIsCurrent_saveState)

lemma topIsCurrent_onTextChange:
  "topIsCurrent this \<Longrightarrow> topIsCurrent (onTextChange newText this)"
  by (simp add: onTextChange_def topIsCurrent_saveState)

lemma topIsCurrent_onSelectionChange:
  "topIsCurrent this \<Longrightarrow> topIsCurrent (onSelectionChange textarea this)"
  by (simp add: onSelectionChange_def topIsCurrent_def)

lemma topIsCurrent_applyFormatting:
  "topIsCurrent this \<Longrightarrow> topIsCurrent (applyFormatting editorElement prefix suffix defaultText this)"
  by (cases editorElement) (simp_all add: applyFormatting_def topIsCurrent_def saveState_fields Let_def)

lemma topIsCurrent_undo: "topIsCurrent this \<Longrightarrow> topIsCurrent (undo this)"
proof (cases "length (undoStack this) \<le> 1")
  case True
  assume "topIsCurrent this"
  with True show ?thesis by (simp add: undo_def)
next
  case False
  then have "butlast (undoStack this) \<noteq> []"
    by (cases "undoStack this" rule: rev_cases) auto
  with False show ?thesis
    by (simp add: undo_def topIsCurrent_def Let_def)
qed

lemma topIsCurrent_redo: "topIsCurrent this \<Longrightarrow> topIsCurrent (redo this)"
  by (simp add: redo_def topIsCurrent_def Let_def)

lemma topIsCurrent_clearHistory: "topIsCurrent (clearHistory this)"
  by (simp add: clearHistory_def topIsCurrent_def Let_def)

lemma topIsCurrent_timeout: "topIsCurrent this \<Longrightarrow> topIsCurrent (timeout this)"
  by (simp add: timeout_def reposition_def topIsCurrent_def Let_def split: list.splits)

lemma topIsCurrent_handle: "topIsCurrent this \<Longrightarrow> topIsCurrent (handle e this)"
  by (cases e)
    (simp_all add: topIsCurrent_onTextChange topIsCurrent_onSelectionChange
       topIsCurrent_applyFormatting topIsCurrent_undo topIsCurrent_redo
       topIsCurrent_clearHistory topIsCurrent_timeout
       formatBold_def formatItalic_def formatHeading_def)

lemma reachable_topIsCurrent: "reachable this \<Longrightarrow> topIsCurrent this"
  by (induction rule: reachable.induct) (simp_all add: topIsCurrent_initialized topIsCurrent_handle)

section \<open>History\<close>

text \<open>
  Claim C9. In every state reachable from the initialised editor the undo stack is not
  empty and its top entry is the current buffer. The property holds once the initial
  snapshot is pushed and is preserved by \<^verbatim>\<open>onTextChange\<close>, \<^verbatim>\<open>applyFormatting\<close>,
  \<^verbatim>\<open>undo\<close>, \<^verbatim>\<open>redo\<close> and \<^verbatim>\<open>clearHistory\<close>.
\<close>

theorem top_of_undo_is_current:
  "topIsCurrent initialized
   \<and> (topIsCurrent this \<longrightarrow>
        topIsCurrent (onTextChange newText this)
        \<and> topIsCurrent (applyFormatting editorElement prefix suffix defaultText this)
        \<and> topIsCurrent (undo this)
        \<and> topIsCurrent (redo this)
        \<and> topIsCurrent (clearHistory this))
   \<and> (reachable this \<longrightarrow> undoStack this \<noteq> [] \<and> last (undoStack this) = editorContent this)"
  using reachable_topIsCurrent [of this]
  by (simp add: topIsCurrent_initialized topIsCurrent_onTextChange topIsCurrent_applyFormatting
        topIsCurrent_undo topIsCurrent_redo topIsCurrent_clearHistory)
     (simp add: topIsCurrent_def)

theorem top_of_undo_is_current_witness:
  "topIsCurrent (undo (onTextChange ''abc'' initialized))
   \<and> reachable (undo (onTextChange ''abc'' initialized))
   \<and> topIsCurrent (redo (undo (onTextChange ''abc'' initialized)))
   \<and> topIsCurrent (clearHistory (undo (onTextChange ''abc'' initialized)))
   \<and> last (undoStack (undo (onTextChange ''abc'' initialized)))
       = editorContent (undo (onTextChange ''abc'' initialized))"
proof -
  have "reachable (handle Undo (handle (TextChange ''abc'') initialized))"
    by (intro reachable.step reachable.start) simp_all
  then have r: "reachable (undo (onTextChange ''abc'' initialized))"
    by simp
  have t: "topIsCurrent (undo (onTextChange ''abc'' initialized))"
    by (simp add: topIsCurrent_def run_defs)
  from top_of_undo_is_current [of "undo (onTextChange ''abc'' initialized)"] r t
  show ?thesis by simp
qed

text \<open>
  Claim C5. In every state reachable from the initialised editor the undo stack has at
  least one entry, and \<^verbatim>\<open>undo\<close> on a stack of exactly one entry changes nothing: the
  buffer, the undo stack and the redo stack (indeed the whole component) stay as they were.
\<close>

theorem undo_floor:
  "reachable this \<Longrightarrow>
     1 \<le> length (undoStack this)
     \<and> (length (undoStack this) = 1 \<longrightarrow>
          editorContent (undo this) = editorContent this
          \<and> undoStack (undo this) = undoStack this
          \<and> redoStack (undo this) = redoStack this
          \<and> undo this = this)"
proof -
  assume "reachable this"
  then have "undoStack this \<noteq> []"
    using reachable_topIsCurrent topIsCurrent_def by blast
  then have "1 \<le> length (undoStack this)"
    by (cases "undoStack this") simp_all
  then show ?thesis
    by (simp add: undo_def)
qed

theorem undo_floor_witness:
  "reachable initialized \<and> length (undoStack initialized) = 1
   \<and> undoStack (undo initialized) = undoStack initialized
   \<and> undo initialized = initialized"
proof -
  have r: "reachable initialized" by (rule reachable.start)
  have l: "length (undoStack initialized) = 1"
    by (simp add: initialized_def ngAfterViewInit_def saveState_fields constructed_def)
  from undo_floor [OF r] l r show ?thesis by simp
qed

text \<open>
  Claim C4, the round trip. From a reachable state with buffer \<open>C1\<close>, an edit to a
  different text \<open>C2\<close> followed by \<^verbatim>\<open>undo\<close> restores exactly \<open>C1\<close>, and \<^verbatim>\<open>redo\<close> right
  after that \<^verbatim>\<open>undo\<close> restores exactly \<open>C2\<close>.
\<close>

theorem undo_redo_round_trip:
  assumes "reachable this" and "C2 \<noteq> editorContent this"
  shows "editorContent (onTextChange C2 this) = C2
         \<and> editorContent (undo (onTextChange C2 this)) = editorContent this
         \<and> editorContent (redo (undo (onTextChange C2 this))) = C2"
proof -
  from assms(1) have top: "undoStack this \<noteq> []" "last (undoStack this) = editorContent this"
    using reachable_topIsCurrent topIsCurrent_def by blast+
  from top(1) have len: "\<not> length (undoStack this) = 0" by simp
  from assms(2) have edit:
    "editorContent (onTextChange C2 this) = C2"
    "undoStack (onTextChange C2 this) = undoStack this @ [C2]"
    by (simp_all add: onTextChange_def saveState_fields)
  from edit top len have u:
    "editorContent (undo (onTextChange C2 this)) = editorContent this"
    "redoStack (undo (onTextChange C2 this)) = redoStack (onTextChange C2 this) @ [C2]"
    by (simp_all add: undo_def Let_def)
  from u(2) have "editorContent (redo (undo (onTextChange C2 this))) = C2"
    by (simp add: redo_def Let_def)
  with edit(1) u(1) show ?thesis by simp
qed

theorem undo_redo_round_trip_witness:
  "reachable (formatItalic (Some (selected 0 3)) initialized)
   \<and> ''abc'' \<noteq> editorContent (formatItalic (Some (selected 0 3)) initialized)
   \<and> editorContent (undo (onTextChange ''abc'' (formatItalic (Some (selected 0 3)) initialized)))
       = editorContent (formatItalic (Some (selected 0 3)) initialized)
   \<and> editorContent (redo (undo (onTextChange ''abc'' (formatItalic (Some (selected 0 3)) initialized))))
       = ''abc''"
proof -
  have "reachable (handle (Italic (Some (selected 0 3))) initialized)"
    by (rule reachable.step [OF reachable.start]) (simp add: selectionOrdered_def selected_def)
  then have r: "reachable (formatItalic (Some (selected 0 3)) initialized)"
    by simp
  have d: "''abc'' \<noteq> editorContent (formatItalic (Some (selected 0 3)) initialized)"
    by (simp add: run_defs)
  from undo_redo_round_trip [OF r d] r d show ?thesis by simp
qed

text \<open>
  Claim C6. An edit with a text that differs from the buffer, and every formatting action
  (bold, italic, heading), leaves the redo stack empty, whatever it held before.
\<close>

theorem new_action_clears_redo:
  "(newText \<noteq> editorContent this \<longrightarrow> redoStack (onTextChange newText this) = [])
   \<and> redoStack (formatBold (Some textarea) this) = []
   \<and> redoStack (formatItalic (Some textarea) this) = []
   \<and> redoStack (formatHeading (Some textarea) this) = []"
  by (auto simp add: onTextChange_def saveState_fields applyFormatting_Some_fields
        formatBold_def formatItalic_def formatHeading_def)

theorem new_action_clears_redo_witness:
  "redoStack (undo (onTextChange ''abc'' initialized)) = [''abc'']
   \<and> ''xyz'' \<noteq> editorContent (undo (onTextChange ''abc'' initialized))
   \<and> redoStack (onTextChange ''xyz'' (undo (onTextChange ''abc'' initialized))) = []
   \<and> redoStack (formatBold (Some (selected 0 0)) (undo (onTextChange ''abc'' initialized))) = []"
  using new_action_clears_redo [of "''xyz''" "undo (onTextChange ''abc'' initialized)" "selected 0 0"]
  by (simp add: run_defs)

text \<open>
  Claim C8. \<^verbatim>\<open>onTextChange\<close> with the text that the buffer already holds is a no-op: the
  buffer is unchanged and nothing is pushed on the undo stack.
\<close>

theorem onTextChange_same_noop:
  "onTextChange (editorContent this) this = this
   \<and> editorContent (onTextChange (editorContent this) this) = editorContent this
   \<and> undoStack (onTextChange (editorContent this) this) = undoStack this"
  by (simp add: onTextChange_def)

text \<open>
  Claim C2, as amended. The claim says that an edit or a formatting action pushes the
  buffer as it was before the action. The code commits the new text first and then calls
  \<^verbatim>\<open>saveState\<close>, which pushes \<^verbatim>\<open>this.editorContent\<close>: the value pushed is the buffer
  after the action. After \<^verbatim>\<open>onTextChange\<close> with a different text, and after
  \<^verbatim>\<open>applyFormatting\<close>, the undo stack is the previous stack with the new buffer appended,
  so its top is the new buffer.
\<close>

theorem edit_pushes_new_buffer:
  "(newText \<noteq> editorContent this \<longrightarrow>
      editorContent (onTextChange newText this) = newText
      \<and> undoStack (onTextChange newText this) = undoStack this @ [newText])
   \<and> undoStack (applyFormatting (Some textarea) prefix suffix defaultText this)
       = undoStack this @ [editorContent (applyFormatting (Some textarea) prefix suffix defaultText this)]"
  by (simp add: onTextChange_def saveState_fields applyFormatting_Some_fields)

theorem edit_pushes_new_buffer_witness:
  "''abc'' \<noteq> editorContent initialized
   \<and> editorContent (onTextChange ''abc'' initialized) = ''abc''
   \<and> undoStack (onTextChange ''abc'' initialized) = [initialContent, ''abc'']"
  using edit_pushes_new_buffer [of "''abc''" initialized]
  by (simp add: run_defs)

text \<open>
  The claim C2 as stated fails on the initialised editor: after the edit to \<open>abc\<close>, and
  after Bold, the top of the undo stack is not the text that the editor held before.
\<close>

theorem pre_action_snapshot_counterexample:
  "''abc'' \<noteq> editorContent initialized
   \<and> last (undoStack (onTextChange ''abc'' initialized)) \<noteq> editorContent initialized
   \<and> last (undoStack (formatBold (Some (selected 0 0)) initialized)) \<noteq> editorContent initialized"
  by (simp add: run_defs)

section \<open>What the history operations leave alone\<close>

text \<open>
  Claim C10, as amended. \<^verbatim>\<open>undo\<close>, \<^verbatim>\<open>redo\<close> and \<^verbatim>\<open>clearHistory\<close> leave the tracked
  selection unchanged, and \<^verbatim>\<open>clearHistory\<close> leaves the buffer unchanged. Besides the
  history stacks (and, for \<^verbatim>\<open>undo\<close> and \<^verbatim>\<open>redo\<close>, the buffer) they also write the
  status line \<^verbatim>\<open>debugInfo\<close>; nothing else is modified.
\<close>

theorem history_ops_frame:
  "undo this = this\<lparr>editorContent := editorContent (undo this),
                     undoStack := undoStack (undo this),
                     redoStack := redoStack (undo this),
                     debugInfo := debugInfo (undo this)\<rparr>
   \<and> redo this = this\<lparr>editorContent := editorContent (redo this),
                       undoStack := undoStack (redo this),
                       redoStack := redoStack (redo this),
                       debugInfo := debugInfo (redo this)\<rparr>
   \<and> clearHistory this = this\<lparr>undoStack := undoStack (clearHistory this),
                               redoStack := redoStack (clearHistory this),
                               debugInfo := debugInfo (clearHistory this)\<rparr>
   \<and> selectionStart (undo this) = selectionStart this
   \<and> selectionEnd (undo this) = selectionEnd this
   \<and> selectionStart (redo this) = selectionStart this
   \<and> selectionEnd (redo this) = selectionEnd this
   \<and> selectionStart (clearHistory this) = selectionStart this
   \<and> selectionEnd (clearHistory this) = selectionEnd this
   \<and> editorContent (clearHistory this) = editorContent this"
  by (simp add: undo_def redo_def clearHistory_def Let_def)

text \<open>
  The claim C10 as stated says that only the history stacks are modified by
  \<^verbatim>\<open>clearHistory\<close>; on the initialised editor it also changes the status line.
\<close>

theorem history_ops_frame_counterexample:
  "debugInfo (clearHistory initialized) \<noteq> debugInfo initialized
   \<and> clearHistory initialized
       \<noteq> initialized\<lparr>undoStack := undoStack (clearHistory initialized),
                      redoStack := redoStack (clearHistory initialized)\<rparr>"
proof -
  have d: "debugInfo (clearHistory initialized) \<noteq> debugInfo initialized"
    by (simp add: run_defs)
  then have "debugInfo (clearHistory initialized)
       \<noteq> debugInfo (initialized\<lparr>undoStack := undoStack (clearHistory initialized),
                      redoStack := redoStack (clearHistory initialized)\<rparr>)"
    by simp
  then have "clearHistory initialized
       \<noteq> initialized\<lparr>undoStack := undoStack (clearHistory initialized),
                      redoStack := redoStack (clearHistory initialized)\<rparr>"
    by (rule contrapos_nn) simp
  with d show ?thesis by simp
qed

section \<open>Formatting\<close>

text \<open>
  On a selection that lies inside the buffer, \<^verbatim>\<open>substring\<close> neither clamps nor swaps, and
  the code computes the slices of the specification.
\<close>

lemma substring_in_range:
  "s \<le> e \<Longrightarrow> e \<le> length str \<Longrightarrow> substring str s e = slice str s e"
  by (simp add: substring_def slice_def Let_def min_absorb1 max_absorb2)

lemma substring_prefix:
  "s \<le> length str \<Longrightarrow> substring str 0 s = slice str 0 s"
  by (simp add: substring_in_range)

lemma substringFrom_in_range:
  "e \<le> length str \<Longrightarrow> substringFrom str e = slice str e (length str)"
  by (simp add: substringFrom_def substring_in_range)

lemma slice_empty_iff:
  "s \<le> e \<Longrightarrow> e \<le> length str \<Longrightarrow> slice str s e = [] \<longleftrightarrow> \<not> s < e"
  by (auto simp add: slice_def)

lemma formattedText_in_range:
  "selectionStart this \<le> selectionEnd this \<Longrightarrow> selectionEnd this \<le> length (editorContent this) \<Longrightarrow>
     formattedText prefix suffix defaultText this
       = specFormatted prefix suffix defaultText (editorContent this) (selectionStart this) (selectionEnd this)"
  by (simp add: formattedText_def specFormatted_def Let_def substring_in_range slice_empty_iff)

lemma applyFormatting_in_range:
  assumes "s \<le> e" and "e \<le> length (editorContent this)"
  shows "editorContent (applyFormatting (Some (selected s e)) prefix suffix defaultText this)
           = specNewBuffer prefix suffix defaultText (editorContent this) s e"
    and "pendingTimeouts (applyFormatting (Some (selected s e)) prefix suffix defaultText this)
           = pendingTimeouts this @ [length (specFormatted prefix suffix defaultText (editorContent this) s e)]"
    and "selectionStart (applyFormatting (Some (selected s e)) prefix suffix defaultText this) = s"
    and "selectionEnd (applyFormatting (Some (selected s e)) prefix suffix defaultText this) = e"
  using assms
  by (simp_all add: applyFormatting_def Let_def selected_def saveState_fields specNewBuffer_def
        formattedText_in_range substring_prefix substringFrom_in_range)

lemma reposition_fields:
  "selectionStart (reposition n this) = selectionStart this + n"
  "selectionEnd (reposition n this) = selectionStart this + n"
  "editorContent (reposition n this) = editorContent this"
  by (simp_all add: reposition_def Let_def)

lemma timeout_single:
  "pendingTimeouts this = [n] \<Longrightarrow> timeout this = reposition n (this\<lparr>pendingTimeouts := []\<rparr>)"
  by (simp add: timeout_def)

text \<open>
  Claim C7. On a buffer \<open>B\<close> with a selection \<open>(s, e)\<close> inside it, \<^verbatim>\<open>applyFormatting\<close>
  produces \<open>B[0:s] + formatted + B[e:]\<close>, where \<open>formatted\<close> is the prefix, then \<open>B[s:e]\<close>
  if \<open>s < e\<close> and the default text otherwise, then the suffix. It schedules one callback
  that captures the length of \<open>formatted\<close>; run on the resulting component, the callback
  puts both selection offsets at \<open>s + length formatted\<close>, and so does the next timer when
  no earlier one is pending. Bold with an empty selection at offset 3 of \<open>abc\<close> gives
  \<open>abc**Bold text**\<close> and the cursor 16; Italic with the selection \<open>[0,3]\<close> of \<open>abcdef\<close>
  gives \<open>_abc_def\<close> and the cursor 5.
\<close>

theorem applyFormatting_splice:
  "(s \<le> e \<and> e \<le> length (editorContent this) \<longrightarrow>
      (let this' = applyFormatting (Some (selected s e)) prefix suffix defaultText this;
           formatted = specFormatted prefix suffix defaultText (editorContent this) s e
       in editorContent this' = specNewBuffer prefix suffix defaultText (editorContent this) s e
          \<and> pendingTimeouts this' = pendingTimeouts this @ [length formatted]
          \<and> selectionStart (reposition (length formatted) this') = s + length formatted
          \<and> selectionEnd (reposition (length formatted) this') = s + length formatted
          \<and> (pendingTimeouts this = [] \<longrightarrow>
                selectionStart (timeout this') = s + length formatted
                \<and> selectionEnd (timeout this') = s + length formatted)))
   \<and> editorContent (formatBold (Some (selected 3 3)) (onTextChange ''abc'' initialized))
       = ''abc**Bold text**''
   \<and> selectionStart (timeout (formatBold (Some (selected 3 3)) (onTextChange ''abc'' initialized))) = 16
   \<and> selectionEnd (timeout (formatBold (Some (selected 3 3)) (onTextChange ''abc'' initialized))) = 16
   \<and> editorContent (formatItalic (Some (selected 0 3)) (onTextChange ''abcdef'' initialized))
       = ''_abc_def''
   \<and> selectionStart (timeout (formatItalic (Some (selected 0 3)) (onTextChange ''abcdef'' initialized))) = 5
   \<and> selectionEnd (timeout (formatItalic (Some (selected 0 3)) (onTextChange ''abcdef'' initialized))) = 5"
proof -
  have general: "s \<le> e \<and> e \<le> length (editorContent this) \<longrightarrow>
      (let this' = applyFormatting (Some (selected s e)) prefix suffix defaultText this;
           formatted = specFormatted prefix suffix defaultText (editorContent this) s e
       in editorContent this' = specNewBuffer prefix suffix defaultText (editorContent this) s e
          \<and> pendingTimeouts this' = pendingTimeouts this @ [length formatted]
          \<and> selectionStart (reposition (length formatted) this') = s + length formatted
          \<and> selectionEnd (reposition (length formatted) this') = s + length formatted
          \<and> (pendingTimeouts this = [] \<longrightarrow>
                selectionStart (timeout this') = s + length formatted
                \<and> selectionEnd (timeout this') = s + length formatted))"
    by (simp add: Let_def applyFormatting_in_range reposition_fields timeout_single)
  have bold: "editorContent (formatBold (Some (selected 3 3)) (onTextChange ''abc'' initialized))
       = ''abc**Bold text**''"
    "selectionStart (timeout (formatBold (Some (selected 3 3)) (onTextChange ''abc'' initialized))) = 16"
    "selectionEnd (timeout (formatBold (Some (selected 3 3)) (onTextChange ''abc'' initialized))) = 16"
    by (simp_all add: run_defs)
  have italic: "editorContent (formatItalic (Some (selected 0 3)) (onTextChange ''abcdef'' initialized))
       = ''_abc_def''"
    "selectionStart (timeout (formatItalic (Some (selected 0 3)) (onTextChange ''abcdef'' initialized))) = 5"
    "selectionEnd (timeout (formatItalic (Some (selected 0 3)) (onTextChange ''abcdef'' initialized))) = 5"
    by (simp_all add: run_defs)
  from general bold italic show ?thesis by blast
qed

theorem applyFormatting_splice_witness:
  "(1::nat) \<le> 4 \<and> 4 \<le> length (editorContent (onTextChange ''abcdef'' initialized))
   \<and> pendingTimeouts (onTextChange ''abcdef'' initialized) = []
   \<and> editorContent (applyFormatting (Some (selected 1 4)) ''<'' ''>'' ''none'' (onTextChange ''abcdef'' initialized))
       = ''a<bcd>ef''
   \<and> selectionStart (timeout (applyFormatting (Some (selected 1 4)) ''<'' ''>'' ''none'' (onTextChange ''abcdef'' initialized)))
       = 6"
proof -
  have h: "(1::nat) \<le> 4 \<and> 4 \<le> length (editorContent (onTextChange ''abcdef'' initialized))"
    "pendingTimeouts (onTextChange ''abcdef'' initialized) = []"
    "editorContent (onTextChange ''abcdef'' initialized) = ''abcdef''"
    by (simp_all add: run_defs)
  from applyFormatting_splice [of 1 4 "onTextChange ''abcdef'' initialized" "''<''" "''>''" "''none''"] h
  show ?thesis
    by (simp add: Let_def specNewBuffer_def specFormatted_def slice_def)
qed

text \<open>
  Claim C1, as amended. \<^verbatim>\<open>formatHeading\<close> takes the prefix \<open># \<close> only when the tracked
  selection start is greater than 0 and the character just before it is a newline; in
  every other case, also when the selection start is 0, the prefix is a newline followed
  by \<open># \<close>. Heading over the selected buffer \<open>Hello\<close> gives a newline followed by
  \<open># Hello\<close>; Heading with an empty selection at offset 5 of \<open>Hello\<close> gives \<open>Hello\<close>,
  a newline and \<open># Heading\<close>.
\<close>

theorem formatHeading_prefix:
  "(selectionStart this = 0 \<longrightarrow> headingPrefix this = newline # ''# '')
   \<and> (0 < selectionStart this \<and> selectionStart this \<le> length (editorContent this) \<longrightarrow>
        headingPrefix this
          = (if editorContent this ! (selectionStart this - 1) = newline then ''# '' else newline # ''# ''))
   \<and> (length (editorContent this) < selectionStart this \<longrightarrow> headingPrefix this = newline # ''# '')
   \<and> formatHeading editorElement this = applyFormatting editorElement (headingPrefix this) [] ''Heading'' this
   \<and> editorContent (formatHeading (Some (selected 0 5))
         (onSelectionChange (selected 0 5) (onTextChange ''Hello'' initialized)))
       = newline # ''# Hello''
   \<and> editorContent (formatHeading (Some (selected 5 5))
         (onSelectionChange (selected 5 5) (onTextChange ''Hello'' initialized)))
       = ''Hello'' @ newline # ''# Heading''"
proof -
  have prefix: "(selectionStart this = 0 \<longrightarrow> headingPrefix this = newline # ''# '')
   \<and> (0 < selectionStart this \<and> selectionStart this \<le> length (editorContent this) \<longrightarrow>
        headingPrefix this
          = (if editorContent this ! (selectionStart this - 1) = newline then ''# '' else newline # ''# ''))
   \<and> (length (editorContent this) < selectionStart this \<longrightarrow> headingPrefix this = newline # ''# '')"
    by (auto simp add: headingPrefix_def charAt_def)
  have examples: "editorContent (formatHeading (Some (selected 0 5))
         (onSelectionChange (selected 0 5) (onTextChange ''Hello'' initialized)))
       = newline # ''# Hello''"
    "editorContent (formatHeading (Some (selected 5 5))
         (onSelectionChange (selected 5 5) (onTextChange ''Hello'' initialized)))
       = ''Hello'' @ newline # ''# Heading''"
    by (simp_all add: run_defs)
  from prefix examples show ?thesis by (simp add: formatHeading_def)
qed

theorem formatHeading_prefix_witness:
  "selectionStart (onSelectionChange (selected 0 5) (onTextChange ''Hello'' initialized)) = 0
   \<and> headingPrefix (onSelectionChange (selected 0 5) (onTextChange ''Hello'' initialized)) = newline # ''# ''
   \<and> 0 < selectionStart (onSelectionChange (selected 2 2) (onTextChange (CHR ''a'' # newline # ''b'') initialized))
   \<and> selectionStart (onSelectionChange (selected 2 2) (onTextChange (CHR ''a'' # newline # ''b'') initialized))
        \<le> length (editorContent (onSelectionChange (selected 2 2) (onTextChange (CHR ''a'' # newline # ''b'') initialized)))
   \<and> headingPrefix (onSelectionChange (selected 2 2) (onTextChange (CHR ''a'' # newline # ''b'') initialized)) = ''# ''
   \<and> length (editorContent (onSelectionChange (selected 9 9) (onTextChange ''Hello'' initialized)))
        < selectionStart (onSelectionChange (selected 9 9) (onTextChange ''Hello'' initialized))
   \<and> headingPrefix (onSelectionChange (selected 9 9) (onTextChange ''Hello'' initialized)) = newline # ''# ''"
proof -
  have a: "selectionStart (onSelectionChange (selected 0 5) (onTextChange ''Hello'' initialized)) = 0"
    by (simp add: run_defs)
  have b: "selectionStart (onSelectionChange (selected 2 2) (onTextChange (CHR ''a'' # newline # ''b'') initialized)) = 2"
    "editorContent (onSelectionChange (selected 2 2) (onTextChange (CHR ''a'' # newline # ''b'') initialized))
       = CHR ''a'' # newline # ''b''"
    by (simp_all add: run_defs)
  have c: "selectionStart (onSelectionChange (selected 9 9) (onTextChange ''Hello'' initialized)) = 9"
    "editorContent (onSelectionChange (selected 9 9) (onTextChange ''Hello'' initialized)) = ''Hello''"
    by (simp_all add: run_defs)
  from formatHeading_prefix [of "onSelectionChange (selected 0 5) (onTextChange ''Hello'' initialized)"]
       formatHeading_prefix [of "onSelectionChange (selected 2 2) (onTextChange (CHR ''a'' # newline # ''b'') initialized)"]
       formatHeading_prefix [of "onSelectionChange (selected 9 9) (onTextChange ''Hello'' initialized)"]
       a b c
  show ?thesis by simp
qed

text \<open>
  The claim C1 as stated gives the prefix \<open># \<close> at selection start 0 and the buffer
  \<open># Hello\<close>; the code gives neither.
\<close>

theorem formatHeading_at_start_counterexample:
  "selectionStart (onSelectionChange (selected 0 5) (onTextChange ''Hello'' initialized)) = 0
   \<and> editorContent (onSelectionChange (selected 0 5) (onTextChange ''Hello'' initialized)) = ''Hello''
   \<and> headingPrefix (onSelectionChange (selected 0 5) (onTextChange ''Hello'' initialized)) \<noteq> ''# ''
   \<and> editorContent (formatHeading (Some (selected 0 5))
         (onSelectionChange (selected 0 5) (onTextChange ''Hello'' initialized)))
       \<noteq> ''# Hello''"
  by (simp add: run_defs)

section \<open>The tracked selection\<close>

lemma ordered_handle:
  "selectionStart this \<le> selectionEnd this \<Longrightarrow> eventOk e \<Longrightarrow>
     selectionStart (handle e this) \<le> selectionEnd (handle e this)"
proof (cases e)
  case (TextChange newText)
  assume "selectionStart this \<le> selectionEnd this"
  with TextChange show ?thesis by (simp add: onTextChange_def saveState_fields)
next
  case (SelectionChange textarea)
  assume "eventOk e"
  with SelectionChange show ?thesis by (simp add: onSelectionChange_def selectionOrdered_def)
next
  case (Bold editorElement)
  assume "selectionStart this \<le> selectionEnd this" "eventOk e"
  with Bold show ?thesis
    by (cases editorElement)
       (simp_all add: formatBold_def applyFormatting_Some_fields selectionOrdered_def,
        simp add: applyFormatting_def)
next
  case (Italic editorElement)
  assume "selectionStart this \<le> selectionEnd this" "eventOk e"
  with Italic show ?thesis
    by (cases editorElement)
       (simp_all add: formatItalic_def applyFormatting_Some_fields selectionOrdered_def,
        simp add: applyFormatting_def)
next
  case (Heading editorElement)
  assume "selectionStart this \<le> selectionEnd this" "eventOk e"
  with Heading show ?thesis
    by (cases editorElement)
       (simp_all add: formatHeading_def applyFormatting_Some_fields selectionOrdered_def,
        simp add: applyFormatting_def)
next
  case Undo
  assume "selectionStart this \<le> selectionEnd this"
  with Undo show ?thesis by (simp add: undo_def Let_def)
next
  case Redo
  assume "selectionStart this \<le> selectionEnd this"
  with Redo show ?thesis by (simp add: redo_def Let_def)
next
  case ClearHistory
  assume "selectionStart this \<le> selectionEnd this"
  with ClearHistory show ?thesis by (simp add: clearHistory_def Let_def)
next
  case Timeout
  assume "selectionStart this \<le> selectionEnd this"
  with Timeout show ?thesis
    by (simp add: timeout_def reposition_def Let_def split: list.splits)
qed

lemma reachable_ordered: "reachable this \<Longrightarrow> selectionStart this \<le> selectionEnd this"
proof (induction rule: reachable.induct)
  case start
  show ?case by (simp add: initialized_def ngAfterViewInit_def saveState_fields constructed_def)
next
  case (step this e)
  then show ?case by (simp add: ordered_handle)
qed

lemma length_specFormatted:
  "s \<le> e \<Longrightarrow> e \<le> length buffer \<Longrightarrow> e - s \<le> length (specFormatted prefix suffix defaultText buffer s e)"
  by (simp add: specFormatted_def slice_def) arith

lemma length_specNewBuffer:
  "s \<le> e \<Longrightarrow> e \<le> length buffer \<Longrightarrow>
     length (specNewBuffer prefix suffix defaultText buffer s e)
       = s + length (specFormatted prefix suffix defaultText buffer s e) + (length buffer - e)"
  by (simp add: specNewBuffer_def slice_def)

lemma applyFormatting_inBounds:
  assumes "s \<le> e" and "e \<le> length (editorContent this)"
  shows "selectionInBounds (applyFormatting (Some (selected s e)) prefix suffix defaultText this)"
proof -
  from assms have "e - s \<le> length (specFormatted prefix suffix defaultText (editorContent this) s e)"
    by (rule length_specFormatted)
  with assms show ?thesis
    by (simp add: selectionInBounds_def applyFormatting_in_range length_specNewBuffer)
qed

lemma applyFormatting_timeout_inBounds:
  assumes "s \<le> e" and "e \<le> length (editorContent this)" and "pendingTimeouts this = []"
  shows "selectionInBounds (timeout (applyFormatting (Some (selected s e)) prefix suffix defaultText this))"
    and "selectionStart (timeout (applyFormatting (Some (selected s e)) prefix suffix defaultText this))
           = selectionEnd (timeout (applyFormatting (Some (selected s e)) prefix suffix defaultText this))"
  using assms
  by (simp_all add: selectionInBounds_def timeout_single applyFormatting_in_range
        reposition_fields length_specNewBuffer)

text \<open>
  Claim C3, as amended. In every reachable state the tracked selection start is at most
  the tracked selection end. \<^verbatim>\<open>applyFormatting\<close> on a selection inside the buffer leaves
  the tracked selection inside the new buffer, right after the call and (when no earlier
  timer is pending) after its deferred repositioning, which collapses it; \<^verbatim>\<open>clearHistory\<close>
  keeps a selection that is inside the buffer inside it. \<^verbatim>\<open>onTextChange\<close>, \<^verbatim>\<open>undo\<close> and
  \<^verbatim>\<open>redo\<close> replace the buffer and never touch the tracked selection, so nothing is
  said about the upper bound after them.
\<close>

theorem selection_bounds_by_design:
  "(reachable this \<longrightarrow> selectionStart this \<le> selectionEnd this)
   \<and> (s \<le> e \<and> e \<le> length (editorContent this) \<longrightarrow>
        selectionInBounds (applyFormatting (Some (selected s e)) prefix suffix defaultText this)
        \<and> (pendingTimeouts this = [] \<longrightarrow>
             selectionInBounds (timeout (applyFormatting (Some (selected s e)) prefix suffix defaultText this))
             \<and> selectionStart (timeout (applyFormatting (Some (selected s e)) prefix suffix defaultText this))
                 = selectionEnd (timeout (applyFormatting (Some (selected s e)) prefix suffix defaultText this))))
   \<and> (selectionInBounds this \<longrightarrow> selectionInBounds (clearHistory this))"
proof -
  have "selectionInBounds this \<longrightarrow> selectionInBounds (clearHistory this)"
    by (simp add: selectionInBounds_def clearHistory_def Let_def)
  then show ?thesis
    using reachable_ordered [of this]
      applyFormatting_inBounds [of s e this prefix suffix defaultText]
      applyFormatting_timeout_inBounds [of s e this prefix suffix defaultText]
    by blast
qed

theorem selection_bounds_by_design_witness:
  "reachable (onTextChange ''abc'' initialized)
   \<and> (3::nat) \<le> 3 \<and> 3 \<le> length (editorContent (onTextChange ''abc'' initialized))
   \<and> pendingTimeouts (onTextChange ''abc'' initialized) = []
   \<and> selectionInBounds (onTextChange ''abc'' initialized)
   \<and> selectionStart (onTextChange ''abc'' initialized) \<le> selectionEnd (onTextChange ''abc'' initialized)
   \<and> selectionInBounds (timeout (applyFormatting (Some (selected 3 3)) ''**'' ''**'' ''Bold text''
         (onTextChange ''abc'' initialized)))
   \<and> selectionInBounds (clearHistory (onTextChange ''abc'' initialized))"
proof -
  have "reachable (handle (TextChange ''abc'') initialized)"
    by (intro reachable.step reachable.start) simp
  then have r: "reachable (onTextChange ''abc'' initialized)" by simp
  have h: "(3::nat) \<le> 3 \<and> 3 \<le> length (editorContent (onTextChange ''abc'' initialized))"
    "pendingTimeouts (onTextChange ''abc'' initialized) = []"
    "selectionInBounds (onTextChange ''abc'' initialized)"
    by (simp_all add: selectionInBounds_def run_defs)
  from selection_bounds_by_design [of "onTextChange ''abc'' initialized" 3 3 "''**''" "''**''" "''Bold text''"] r h
  show ?thesis by simp
qed

text \<open>
  The claim C3 as stated fails after four steps from the initialised editor: the text is
  replaced by \<open>abc\<close>, Bold is applied at offset 3, its timer moves the cursor to 16, and
  \<^verbatim>\<open>undo\<close> restores \<open>abc\<close> while the tracked selection stays at 16.
\<close>

theorem selection_bounds_counterexample:
  "reachable (undo (timeout (formatBold (Some (selected 3 3)) (onTextChange ''abc'' initialized))))
   \<and> editorContent (undo (timeout (formatBold (Some (selected 3 3)) (onTextChange ''abc'' initialized)))) = ''abc''
   \<and> selectionEnd (undo (timeout (formatBold (Some (selected 3 3)) (onTextChange ''abc'' initialized)))) = 16
   \<and> \<not> selectionInBounds (undo (timeout (formatBold (Some (selected 3 3)) (onTextChange ''abc'' initialized))))"
proof -
  have "reachable (handle Undo (handle Timeout (handle (Bold (Some (selected 3 3)))
          (handle (TextChange ''abc'') initialized))))"
    by (intro reachable.step reachable.start) (simp_all add: selectionOrdered_def selected_def)
  then have r: "reachable (undo (timeout (formatBold (Some (selected 3 3)) (onTextChange ''abc'' initialized))))"
    by simp
  have v: "editorContent (undo (timeout (formatBold (Some (selected 3 3)) (onTextChange ''abc'' initialized)))) = ''abc''"
    "selectionEnd (undo (timeout (formatBold (Some (selected 3 3)) (onTextChange ''abc'' initialized)))) = 16"
    by (simp_all add: run_defs)
  then have "\<not> selectionInBounds (undo (timeout (formatBold (Some (selected 3 3)) (onTextChange ''abc'' initialized))))"
    by (simp add: selectionInBounds_def)
  with r v show ?thesis by simp
qed

end
